theory Spec2Isabelle
  imports Main
begin

section \<open>JSON values and the Python operations applied to them\<close>

text \<open>
  A request is what \<^verbatim>\<open>json.loads\<close> returns: \<^verbatim>\<open>None\<close>, a bool, an int, a float, a
  \<^verbatim>\<open>str\<close>, a list or a dict with string keys. A \<^verbatim>\<open>str\<close> is held as the bytes of its
  UTF-8 encoding, a float as the text of its \<^verbatim>\<open>repr\<close> (the handlers only test a float
  for truth and print it), a dict as an association list in insertion order, read
  with \<open>map_of\<close>.
\<close>

datatype json =
    JNull
  | JBool bool
  | JInt int
  | JFloat string
  | JStr string
  | JList "json list"
  | JObj "(string \<times> json) list"

type_synonym dict = "(string \<times> json) list"

text \<open>Truth value of an object in a condition (\<^verbatim>\<open>if x:\<close>, \<^verbatim>\<open>not x\<close>, \<^verbatim>\<open>x or y\<close>).\<close>

fun py_truthy :: "json \<Rightarrow> bool" where
  "py_truthy JNull = False"
| "py_truthy (JBool b) = b"
| "py_truthy (JInt n) = (n \<noteq> 0)"
| "py_truthy (JFloat r) = (r \<noteq> ''0.0'' \<and> r \<noteq> ''-0.0'')"
| "py_truthy (JStr s) = (s \<noteq> [])"
| "py_truthy (JList vs) = (vs \<noteq> [])"
| "py_truthy (JObj kvs) = (kvs \<noteq> [])"

text \<open>
  Exceptions. \<open>Exception\<close> is raised by the source with the text it formats itself;
  the next seven are raised by the interpreter (attribute lookup, call binding,
  subscripting, an operand of the wrong type); \<open>LibraryError\<close> stands for whatever
  a library or the operating system raises, with the text \<^verbatim>\<open>str(e)\<close> gives.
\<close>

datatype exn =
    Exception string
  | AttributeError json string
  | NotAMapping string json
  | MissingArgument string string
  | UnexpectedKeyword string string
  | NotSubscriptable json string
  | KeyError string
  | UnsupportedOperand json string string
  | LibraryError string

text \<open>
  What the interpreter decides and the source does not: the wording of the exceptions
  it raises itself, and the \<^verbatim>\<open>repr\<close> of a list or a dict.
\<close>

record interp =
  exn_text :: "exn \<Rightarrow> string"
  repr_container :: "json \<Rightarrow> string"

definition str_exn :: "interp \<Rightarrow> exn \<Rightarrow> string" where
  "str_exn I e = (case e of Exception m \<Rightarrow> m | LibraryError m \<Rightarrow> m | _ \<Rightarrow> exn_text I e)"

definition digit_char :: "nat \<Rightarrow> char" where
  "digit_char n = char_of (48 + n)"

function string_of_nat :: "nat \<Rightarrow> string" where
  "string_of_nat n =
     (if n < 10 then [digit_char n] else string_of_nat (n div 10) @ [digit_char (n mod 10)])"
  by pat_completeness auto
termination
  by (relation "measure (\<lambda>n. n)") auto

declare string_of_nat.simps [simp del]

definition string_of_int :: "int \<Rightarrow> string" where
  "string_of_int i =
     (if i < 0 then CHR ''-'' # string_of_nat (nat (- i)) else string_of_nat (nat i))"

text \<open>\<^verbatim>\<open>str(v)\<close>, as an f-string formats a value.\<close>

definition py_str :: "interp \<Rightarrow> json \<Rightarrow> string" where
  "py_str I v =
     (case v of
        JStr s \<Rightarrow> s
      | JNull \<Rightarrow> ''None''
      | JBool b \<Rightarrow> (if b then ''True'' else ''False'')
      | JInt n \<Rightarrow> string_of_int n
      | JFloat r \<Rightarrow> r
      | _ \<Rightarrow> repr_container I v)"

text \<open>\<^verbatim>\<open>d.get(k, dflt)\<close> on a dict, and on any value: only a dict has the method.\<close>

definition dict_get :: "dict \<Rightarrow> string \<Rightarrow> json \<Rightarrow> json" where
  "dict_get d k dflt = (case map_of d k of None \<Rightarrow> dflt | Some v \<Rightarrow> v)"

fun py_get :: "json \<Rightarrow> string \<Rightarrow> json \<Rightarrow> exn + json" where
  "py_get (JObj d) k dflt = Inr (dict_get d k dflt)"
| "py_get v k dflt = Inl (AttributeError v ''get'')"

text \<open>\<^verbatim>\<open>v[k]\<close> with a string key.\<close>

fun py_subscript :: "json \<Rightarrow> string \<Rightarrow> exn + json" where
  "py_subscript (JObj d) k = (case map_of d k of None \<Rightarrow> Inl (KeyError k) | Some v \<Rightarrow> Inr v)"
| "py_subscript v k = Inl (NotSubscriptable v k)"

text \<open>\<^verbatim>\<open>s.startswith(p)\<close> on strings.\<close>

fun startswith :: "string \<Rightarrow> string \<Rightarrow> bool" where
  "startswith s [] = True"
| "startswith [] (p # ps) = False"
| "startswith (c # cs) (p # ps) = (c = p \<and> startswith cs ps)"

fun join :: "string \<Rightarrow> string list \<Rightarrow> string" where
  "join sep [] = []"
| "join sep [x] = x"
| "join sep (x # y # ys) = x @ sep @ join sep (y # ys)"

definition newline :: string where
  "newline = [CHR 0x0A]"

subsection \<open>\<^verbatim>\<open>json.dumps(obj, indent=2)\<close>\<close>

text \<open>
  The encoder of the standard library with its defaults: \<^verbatim>\<open>ensure_ascii\<close> escapes
  every character outside the printable ASCII range, which needs the code points of
  the string back from its UTF-8 bytes.
\<close>

fun utf8_decode :: "nat list \<Rightarrow> nat list" where
  "utf8_decode [] = []"
| "utf8_decode (b # bs) =
     (let n = (if 0xF0 \<le> b then 3 else if 0xE0 \<le> b then 2 else if 0xC0 \<le> b then 1 else 0 :: nat);
          lead = (if 0xF0 \<le> b then b mod 8 else if 0xE0 \<le> b then b mod 16
                  else if 0xC0 \<le> b then b mod 32 else b)
      in foldl (\<lambda>acc c. acc * 64 + c mod 64) lead (take n bs) # utf8_decode (drop n bs))"

definition hex_digit :: "nat \<Rightarrow> char" where
  "hex_digit n = (if n < 10 then char_of (48 + n) else char_of (87 + n))"

definition u_escape :: "nat \<Rightarrow> string" where
  "u_escape n =
     [CHR 0x5C, CHR ''u'', hex_digit (n div 4096 mod 16), hex_digit (n div 256 mod 16),
      hex_digit (n div 16 mod 16), hex_digit (n mod 16)]"

definition escape_char :: "nat \<Rightarrow> string" where
  "escape_char n =
     (if n = 0x5C then [CHR 0x5C, CHR 0x5C]
      else if n = 0x22 then [CHR 0x5C, CHR 0x22]
      else if n = 0x08 then [CHR 0x5C, CHR ''b'']
      else if n = 0x0C then [CHR 0x5C, CHR ''f'']
      else if n = 0x0A then [CHR 0x5C, CHR ''n'']
      else if n = 0x0D then [CHR 0x5C, CHR ''r'']
      else if n = 0x09 then [CHR 0x5C, CHR ''t'']
      else if 0x20 \<le> n \<and> n \<le> 0x7E then [char_of n]
      else if n < 0x10000 then u_escape n
      else u_escape (0xD800 + (n - 0x10000) div 1024 mod 1024)
           @ u_escape (0xDC00 + (n - 0x10000) mod 1024))"

definition encode_basestring_ascii :: "string \<Rightarrow> string" where
  "encode_basestring_ascii s =
     [CHR 0x22] @ concat (map escape_char (utf8_decode (map of_char s))) @ [CHR 0x22]"

definition floatstr :: "string \<Rightarrow> string" where
  "floatstr r =
     (if r = ''nan'' then ''NaN'' else if r = ''inf'' then ''Infinity''
      else if r = ''-inf'' then ''-Infinity'' else r)"

definition newline_indent :: "nat \<Rightarrow> string" where
  "newline_indent level = newline @ replicate (2 * level) CHR '' ''"

fun dumps_at :: "nat \<Rightarrow> json \<Rightarrow> string"
  and dumps_items :: "nat \<Rightarrow> json list \<Rightarrow> string list"
  and dumps_members :: "nat \<Rightarrow> (string \<times> json) list \<Rightarrow> string list" where
  "dumps_at level JNull = ''null''"
| "dumps_at level (JBool b) = (if b then ''true'' else ''false'')"
| "dumps_at level (JInt n) = string_of_int n"
| "dumps_at level (JFloat r) = floatstr r"
| "dumps_at level (JStr s) = encode_basestring_ascii s"
| "dumps_at level (JList vs) =
     (if vs = [] then ''[]''
      else ''['' @ newline_indent (Suc level)
           @ join ('','' @ newline_indent (Suc level)) (dumps_items (Suc level) vs)
           @ newline_indent level @ '']'')"
| "dumps_at level (JObj kvs) =
     (if kvs = [] then ''{}''
      else ''{'' @ newline_indent (Suc level)
           @ join ('','' @ newline_indent (Suc level)) (dumps_members (Suc level) kvs)
           @ newline_indent level @ ''}'')"
| "dumps_items level [] = []"
| "dumps_items level (v # vs) = dumps_at level v # dumps_items level vs"
| "dumps_members level [] = []"
| "dumps_members level ((k, v) # kvs) =
     (encode_basestring_ascii k @ '': '' @ dumps_at level v) # dumps_members level kvs"

definition json_dumps_indent2 :: "json \<Rightarrow> string" where
  "json_dumps_indent2 v = dumps_at 0 v"

subsection \<open>JSON-RPC envelopes\<close>

text \<open>The two shapes of dict literal every branch of both dispatchers returns.\<close>

definition result_response :: "json \<Rightarrow> json \<Rightarrow> dict" where
  "result_response request_id r =
     [(''jsonrpc'', JStr ''2.0''), (''id'', request_id), (''result'', r)]"

definition error_response :: "json \<Rightarrow> int \<Rightarrow> string \<Rightarrow> dict" where
  "error_response request_id code message =
     [(''jsonrpc'', JStr ''2.0''), (''id'', request_id),
      (''error'', JObj [(''code'', JInt code), (''message'', JStr message)])]"

text \<open>Reading a response back: the code of its error object, if it has one.\<close>

definition error_code :: "dict \<Rightarrow> json option" where
  "error_code r =
     (case map_of r ''error'' of Some (JObj e) \<Rightarrow> map_of e ''code'' | _ \<Rightarrow> None)"

text \<open>External services answer a POST with a response object, or the call raises.\<close>

record http_response =
  status_code :: int
  resp_text :: string
  resp_content :: string
  resp_json :: "exn + json"

definition VEROVIO_API_URL :: string where
  "VEROVIO_API_URL = ''https://ykzou1214--verovio-api-fastapi-app.modal.run''"

definition MUSICGEN_API_URL :: string where
  "MUSICGEN_API_URL = ''https://ykzou1214--musicgen-melody-api-inference-api.modal.run''"

section \<open>The \<^verbatim>\<open>api/index.py\<close> variant\<close>

text \<open>
  What a call of this variant reads from outside: the interpreter, the clock (the two
  formats \<^verbatim>\<open>%Y%m%d_%H%M%S\<close> and \<^verbatim>\<open>%Y-%m-%d\<close> of \<^verbatim>\<open>datetime.now()\<close>), and
  \<^verbatim>\<open>requests.post(url, json=body, timeout=...)\<close>, which answers or raises.
\<close>

record index_env =
  index_interp :: interp
  now_stamp :: string
  now_date :: string
  requests_post_json :: "string \<Rightarrow> json \<Rightarrow> exn + http_response"

text \<open>
  \<^verbatim>\<open>create_placeholder_musicxml(title="Generated Music", timestamp=None)\<close>. The
  timestamp is defaulted from the clock and then not used: the document holds the
  title and the current date only.
\<close>

definition create_placeholder_musicxml :: "index_env \<Rightarrow> string \<Rightarrow> json \<Rightarrow> string" where
  \<open>create_placeholder_musicxml E title timestamp =
     (let timestamp = (if timestamp = JNull then JStr (now_stamp E) else timestamp)
      in join newline
          [''<?xml version="1.0" encoding="UTF-8"?>'',
           ''<score-partwise version="3.1">'',
           ''  <work>'',
           ''    <work-title>'' @ title @ ''</work-title>'',
           ''  </work>'',
           ''  <identification>'',
           ''    <creator type="composer">MusicToolkit AI</creator>'',
           ''    <encoding>'',
           ''      <software>MusicToolkit MCP Server</software>'',
           ''      <encoding-date>'' @ now_date E @ ''</encoding-date>'',
           ''    </encoding>'',
           ''  </identification>'',
           ''  <part-list>'',
           ''    <score-part id="P1">'',
           ''      <part-name>Generated Part</part-name>'',
           ''    </score-part>'',
           ''  </part-list>'',
           ''  <part id="P1">'',
           ''    <measure number="1">'',
           ''      <attributes>'',
           ''        <divisions>4</divisions>'',
           ''        <key>'',
           ''          <fifths>0</fifths>'',
           ''        </key>'',
           ''        <time>'',
           ''          <beats>4</beats>'',
           ''          <beat-type>4</beat-type>'',
           ''        </time>'',
           ''        <clef>'',
           ''          <sign>G</sign>'',
           ''          <line>2</line>'',
           ''        </clef>'',
           ''      </attributes>'',
           ''      <note>'',
           ''        <pitch>'',
           ''          <step>C</step>'',
           ''          <octave>4</octave>'',
           ''        </pitch>'',
           ''        <duration>4</duration>'',
           ''        <type>quarter</type>'',
           ''      </note>'',
           ''      <note>'',
           ''        <pitch>'',
           ''          <step>D</step>'',
           ''          <octave>4</octave>'',
           ''        </pitch>'',
           ''        <duration>4</duration>'',
           ''        <type>quarter</type>'',
           ''      </note>'',
           ''      <note>'',
           ''        <pitch>'',
           ''          <step>E</step>'',
           ''          <octave>4</octave>'',
           ''        </pitch>'',
           ''        <duration>4</duration>'',
           ''        <type>quarter</type>'',
           ''      </note>'',
           ''      <note>'',
           ''        <pitch>'',
           ''          <step>F</step>'',
           ''          <octave>4</octave>'',
           ''        </pitch>'',
           ''        <duration>4</duration>'',
           ''        <type>quarter</type>'',
           ''      </note>'',
           ''    </measure>'',
           ''  </part>'',
           ''</score-partwise>''])\<close>

text \<open>
  Assignment to a key, \<^verbatim>\<open>result[k] = v\<close>, keeps the position of a key already
  present and appends a new one; \<^verbatim>\<open>result[k] += suffix\<close> reads the entry first.
\<close>

definition dict_set :: "dict \<Rightarrow> string \<Rightarrow> json \<Rightarrow> dict" where
  "dict_set d k v =
     (if k \<in> set (map fst d)
      then map (\<lambda>(k', v'). if k' = k then (k', v) else (k', v')) d
      else d @ [(k, v)])"

definition dict_iadd_str :: "dict \<Rightarrow> string \<Rightarrow> string \<Rightarrow> exn + dict" where
  "dict_iadd_str d k suffix =
     (case map_of d k of
        None \<Rightarrow> Inl (KeyError k)
      | Some (JStr s) \<Rightarrow> Inr (dict_set d k (JStr (s @ suffix)))
      | Some v \<Rightarrow> Inl (UnsupportedOperand v ''+='' ''str''))"

text \<open>
  \<^verbatim>\<open>wav_to_music_score(wav_path, render_svg=True, timestamp=None)\<close>. The inner
  \<^verbatim>\<open>try\<close> is \<open>render_attempt\<close>, the body of the outer one is
  \<open>wav_to_music_score_body\<close>; each handler is the \<open>Inl\<close> case where it is called.
\<close>

definition render_attempt :: "index_env \<Rightarrow> dict \<Rightarrow> string \<Rightarrow> exn + dict" where
  "render_attempt E result musicxml_content =
     (case requests_post_json E (VEROVIO_API_URL @ ''/render_musicxml'')
             (JObj [(''musicxml'', JStr musicxml_content)]) of
        Inl e \<Rightarrow> Inl e
      | Inr verovio_response \<Rightarrow>
          if status_code verovio_response = 200 then
            (case resp_json verovio_response of
               Inl e \<Rightarrow> Inl e
             | Inr svg_data \<Rightarrow>
                 (case py_get svg_data ''svg'' (JStr []) of
                    Inl e \<Rightarrow> Inl e
                  | Inr svg \<Rightarrow>
                      dict_iadd_str (dict_set result ''svg'' svg) ''message''
                        '' with SVG rendering''))
          else dict_iadd_str (dict_set result ''svg'' (JStr [])) ''message''
                 '' (SVG rendering failed)'')"

definition wav_to_music_score_body :: "index_env \<Rightarrow> json \<Rightarrow> json \<Rightarrow> json \<Rightarrow> exn + dict" where
  "wav_to_music_score_body E wav_path render_svg timestamp =
     (let musicxml_content = create_placeholder_musicxml E ''Audio Conversion'' timestamp;
          result =
            [(''success'', JBool True),
             (''musicxml'', JStr musicxml_content),
             (''message'', JStr ''Placeholder MusicXML generated (basic-pitch not available in deployment)'')]
      in if py_truthy render_svg then
           (case render_attempt E result musicxml_content of
              Inr result' \<Rightarrow> Inr result'
            | Inl e \<Rightarrow>
                dict_iadd_str (dict_set result ''svg'' (JStr [])) ''message''
                  ('' (SVG error: '' @ str_exn (index_interp E) e @ '')''))
         else Inr result)"

definition wav_to_music_score :: "index_env \<Rightarrow> json \<Rightarrow> json \<Rightarrow> json \<Rightarrow> dict" where
  "wav_to_music_score E wav_path render_svg timestamp =
     (case wav_to_music_score_body E wav_path render_svg timestamp of
        Inr result \<Rightarrow> result
      | Inl e \<Rightarrow>
          [(''success'', JBool False),
           (''error'', JStr (str_exn (index_interp E) e)),
           (''message'', JStr ''Failed to process audio file'')])"

text \<open>
  \<^verbatim>\<open>generate_music_from_humming(humming_path, generate_score=True, timestamp=None)\<close>.
  \<open>musicgen_attempt\<close> is the inner \<^verbatim>\<open>try\<close>; a status other than 200 raises
  into its own handler.
\<close>

definition musicgen_attempt :: "index_env \<Rightarrow> json \<Rightarrow> exn + dict" where
  "musicgen_attempt E humming_path =
     (case requests_post_json E (MUSICGEN_API_URL @ ''/generate'')
             (JObj [(''audio_path'', humming_path), (''duration'', JInt 30)]) of
        Inl e \<Rightarrow> Inl e
      | Inr musicgen_response \<Rightarrow>
          if status_code musicgen_response = 200 then
            (case resp_json musicgen_response of
               Inl e \<Rightarrow> Inl e
             | Inr generation_data \<Rightarrow>
                 (case py_get generation_data ''audio_url'' (JStr []) of
                    Inl e \<Rightarrow> Inl e
                  | Inr audio_url \<Rightarrow>
                      Inr [(''success'', JBool True),
                           (''generated_audio'', audio_url),
                           (''message'', JStr ''Music generated successfully using MusicGen'')]))
          else Inl (Exception (''MusicGen API error: ''
                                @ string_of_int (status_code musicgen_response))))"

definition generate_music_from_humming_body ::
    "index_env \<Rightarrow> json \<Rightarrow> json \<Rightarrow> json \<Rightarrow> exn + dict" where
  "generate_music_from_humming_body E humming_path generate_score timestamp =
     (let result =
            (case musicgen_attempt E humming_path of
               Inr result \<Rightarrow> result
             | Inl api_error \<Rightarrow>
                 [(''success'', JBool True),
                  (''generated_audio'', JStr []),
                  (''message'', JStr (''Placeholder response (MusicGen API unavailable: ''
                                       @ str_exn (index_interp E) api_error @ '')''))])
      in if py_truthy generate_score then
           (let musicxml_content =
                  create_placeholder_musicxml E ''Generated from Humming'' timestamp
            in dict_iadd_str (dict_set result ''musicxml'' (JStr musicxml_content)) ''message''
                 '' with MusicXML score'')
         else Inr result)"

definition generate_music_from_humming :: "index_env \<Rightarrow> json \<Rightarrow> json \<Rightarrow> json \<Rightarrow> dict" where
  "generate_music_from_humming E humming_path generate_score timestamp =
     (case generate_music_from_humming_body E humming_path generate_score timestamp of
        Inr result \<Rightarrow> result
      | Inl e \<Rightarrow>
          [(''success'', JBool False),
           (''error'', JStr (str_exn (index_interp E) e)),
           (''message'', JStr ''Failed to generate music from humming'')])"

text \<open>
  A call \<^verbatim>\<open>f(**arguments)\<close>: the argument must be a mapping, every key must name a
  parameter (the first that does not is reported), and every parameter without a
  default must be given; a parameter not given takes its default.
\<close>

definition bind_kwargs :: "string \<Rightarrow> string list \<Rightarrow> string list \<Rightarrow> json \<Rightarrow> exn + dict" where
  "bind_kwargs fname parameters required arguments =
     (case arguments of
        JObj kwargs \<Rightarrow>
          (case filter (\<lambda>k. k \<notin> set parameters) (map fst kwargs) of
             k # _ \<Rightarrow> Inl (UnexpectedKeyword fname k)
           | [] \<Rightarrow>
               (case filter (\<lambda>p. map_of kwargs p = None) required of
                  p # _ \<Rightarrow> Inl (MissingArgument fname p)
                | [] \<Rightarrow> Inr kwargs))
      | _ \<Rightarrow> Inl (NotAMapping fname arguments))"

definition call_wav_to_music_score :: "index_env \<Rightarrow> json \<Rightarrow> exn + dict" where
  "call_wav_to_music_score E arguments =
     (case bind_kwargs ''wav_to_music_score'' [''wav_path'', ''render_svg'', ''timestamp'']
             [''wav_path''] arguments of
        Inl e \<Rightarrow> Inl e
      | Inr kwargs \<Rightarrow>
          Inr (wav_to_music_score E (dict_get kwargs ''wav_path'' JNull)
                 (dict_get kwargs ''render_svg'' (JBool True)) (dict_get kwargs ''timestamp'' JNull)))"

definition call_generate_music_from_humming :: "index_env \<Rightarrow> json \<Rightarrow> exn + dict" where
  "call_generate_music_from_humming E arguments =
     (case bind_kwargs ''generate_music_from_humming''
             [''humming_path'', ''generate_score'', ''timestamp''] [''humming_path''] arguments of
        Inl e \<Rightarrow> Inl e
      | Inr kwargs \<Rightarrow>
          Inr (generate_music_from_humming E (dict_get kwargs ''humming_path'' JNull)
                 (dict_get kwargs ''generate_score'' (JBool True)) (dict_get kwargs ''timestamp'' JNull)))"

subsection \<open>The dispatcher of \<^verbatim>\<open>api/index.py\<close>\<close>

definition initialize_result_index :: json where
  "initialize_result_index =
     JObj [(''protocolVersion'', JStr ''2024-11-05''),
           (''capabilities'',
              JObj [(''tools'', JObj []), (''resources'', JObj []), (''prompts'', JObj [])]),
           (''serverInfo'',
              JObj [(''name'', JStr ''MusicToolkit MCP Server''), (''version'', JStr ''1.14.0'')])]"

definition tools_index :: "json list" where
  "tools_index =
     [JObj [(''name'', JStr ''wav_to_music_score''),
            (''description'',
               JStr ''Convert WAV audio files to MusicXML scores with optional SVG rendering''),
            (''inputSchema'',
               JObj [(''type'', JStr ''object''),
                     (''properties'',
                        JObj [(''wav_path'',
                                 JObj [(''type'', JStr ''string''),
                                       (''description'', JStr ''Path to WAV audio file'')]),
                              (''render_svg'',
                                 JObj [(''type'', JStr ''boolean''),
                                       (''description'', JStr ''Whether to render SVG''),
                                       (''default'', JBool True)]),
                              (''timestamp'',
                                 JObj [(''type'', JStr ''string''),
                                       (''description'',
                                          JStr ''Optional timestamp for file naming'')])]),
                     (''required'', JList [JStr ''wav_path''])])],
      JObj [(''name'', JStr ''generate_music_from_humming''),
            (''description'', JStr ''Generate full music from humming audio using AI''),
            (''inputSchema'',
               JObj [(''type'', JStr ''object''),
                     (''properties'',
                        JObj [(''humming_path'',
                                 JObj [(''type'', JStr ''string''),
                                       (''description'', JStr ''Path to humming audio file'')]),
                              (''generate_score'',
                                 JObj [(''type'', JStr ''boolean''),
                                       (''description'', JStr ''Whether to generate music score''),
                                       (''default'', JBool True)]),
                              (''timestamp'',
                                 JObj [(''type'', JStr ''string''),
                                       (''description'',
                                          JStr ''Optional timestamp for file naming'')])]),
                     (''required'', JList [JStr ''humming_path''])])]]"

definition text_content :: "string \<Rightarrow> json" where
  "text_content s = JObj [(''content'', JList [JObj [(''type'', JStr ''text''), (''text'', JStr s)]])]"

definition tools_call_index :: "index_env \<Rightarrow> json \<Rightarrow> json \<Rightarrow> exn + dict" where
  "tools_call_index E params request_id =
     (case py_get params ''name'' JNull of
        Inl e \<Rightarrow> Inl e
      | Inr tool_name \<Rightarrow>
          (case py_get params ''arguments'' (JObj []) of
             Inl e \<Rightarrow> Inl e
           | Inr arguments \<Rightarrow>
               (case (if tool_name = JStr ''wav_to_music_score''
                        then call_wav_to_music_score E arguments
                      else if tool_name = JStr ''generate_music_from_humming''
                        then call_generate_music_from_humming E arguments
                      else Inl (Exception (''Unknown tool: ''
                                            @ py_str (index_interp E) tool_name))) of
                  Inl e \<Rightarrow> Inl e
                | Inr result \<Rightarrow>
                    Inr (result_response request_id
                           (text_content (json_dumps_indent2 (JObj result)))))))"

text \<open>The body of the \<^verbatim>\<open>try\<close> statement of \<^verbatim>\<open>handle_mcp_request\<close>.\<close>

definition dispatch_index :: "index_env \<Rightarrow> json \<Rightarrow> json \<Rightarrow> json \<Rightarrow> exn + dict" where
  "dispatch_index E method params request_id =
     (if method = JStr ''initialize'' then
        Inr (result_response request_id initialize_result_index)
      else if method = JStr ''tools/list'' then
        Inr (result_response request_id (JObj [(''tools'', JList tools_index)]))
      else if method = JStr ''tools/call'' then
        tools_call_index E params request_id
      else if method = JStr ''resources/list'' then
        Inr (result_response request_id (JObj [(''resources'', JList [])]))
      else if method = JStr ''prompts/list'' then
        Inr (result_response request_id (JObj [(''prompts'', JList [])]))
      else
        Inr (error_response request_id (- 32601)
               (''Method not found: '' @ py_str (index_interp E) method)))"

text \<open>
  \<^verbatim>\<open>handle_mcp_request(request_data)\<close>: three reads of the request outside the
  \<^verbatim>\<open>try\<close>, which raise when the request is not a dict, then the dispatch, whose
  exceptions the handler turns into the response with code -32603.
\<close>

definition handle_mcp_request_index :: "index_env \<Rightarrow> json \<Rightarrow> exn + dict" where
  "handle_mcp_request_index E request_data =
     (case py_get request_data ''method'' JNull of
        Inl e \<Rightarrow> Inl e
      | Inr method \<Rightarrow>
          (case py_get request_data ''params'' (JObj []) of
             Inl e \<Rightarrow> Inl e
           | Inr params \<Rightarrow>
               (case py_get request_data ''id'' (JInt 0) of
                  Inl e \<Rightarrow> Inl e
                | Inr request_id \<Rightarrow>
                    (case dispatch_index E method params request_id of
                       Inr response \<Rightarrow> Inr response
                     | Inl e \<Rightarrow>
                         Inr (error_response request_id (- 32603)
                                (''Internal error: '' @ str_exn (index_interp E) e))))))"

section \<open>The \<^verbatim>\<open>api/mcp.py\<close> variant\<close>

text \<open>
  The environment of one request: what each call that leaves the program answers if
  the request reaches it. A request reaches each of them at most once, so one answer
  per call site is all a run can observe.
  \<^item> \<open>coerce_int\<close>, \<open>coerce_str\<close>, \<open>coerce_dict\<close>: what the validation of
    \<^verbatim>\<open>MCPRequest\<close> makes of a value that is not already of the field's type (the
    base class is pydantic's \<^verbatim>\<open>BaseModel\<close>, which
    \<^verbatim>\<open>music_toolkit_server.py\<close> imports and this file uses without importing);
    \<open>validation_error_text\<close> is the text of its \<^verbatim>\<open>ValidationError\<close>;
  \<^item> \<open>path_exists\<close>: \<^verbatim>\<open>os.path.exists\<close>;
  \<^item> \<open>now_dispatch\<close>, \<open>now_hum\<close>, \<open>now_xml\<close>: the clock, formatted
    \<^verbatim>\<open>%Y%m%d_%H%M%S\<close>, read in \<^verbatim>\<open>handle_mcp_request\<close>,
    \<^verbatim>\<open>generate_music_from_hum\<close> and \<^verbatim>\<open>wav_to_musicxml\<close>;
  \<^item> \<open>mkdir_xml\<close>, \<open>mkdir_hum\<close>: \<^verbatim>\<open>output_dir.mkdir(exist_ok=True)\<close> in
    \<^verbatim>\<open>wav_to_musicxml\<close> and \<^verbatim>\<open>generate_music_from_hum\<close>;
  \<^item> \<open>write_musicxml\<close>, \<open>write_wav\<close>: opening the path for writing and writing
    the content;
  \<^item> \<open>verovio_post\<close>: opening the MusicXML file and posting it;
    \<open>musicgen_post\<close>: opening the melody file and posting it with the prompt.
\<close>

record mcp_env =
  mcp_interp :: interp
  coerce_int :: "json \<Rightarrow> int option"
  coerce_str :: "json \<Rightarrow> string option"
  coerce_dict :: "json \<Rightarrow> dict option"
  validation_error_text :: "dict \<Rightarrow> string"
  path_exists :: "json \<Rightarrow> exn + bool"
  now_dispatch :: string
  now_hum :: string
  now_xml :: string
  mkdir_xml :: "exn option"
  mkdir_hum :: "exn option"
  write_musicxml :: "string \<Rightarrow> string \<Rightarrow> exn option"
  write_wav :: "string \<Rightarrow> string \<Rightarrow> exn option"
  verovio_post :: "string \<Rightarrow> exn + http_response"
  musicgen_post :: "json \<Rightarrow> json \<Rightarrow> exn + http_response"

text \<open>The markers the texts start with, as UTF-8: U+274C, U+26A0 U+FE0F, U+2705,
  U+1F4C1, U+1F3BC, U+1F3B5.\<close>

definition cross_mark :: string where
  "cross_mark = [CHR 0xE2, CHR 0x9D, CHR 0x8C]"

definition warning_sign :: string where
  "warning_sign = [CHR 0xE2, CHR 0x9A, CHR 0xA0, CHR 0xEF, CHR 0xB8, CHR 0x8F]"

definition check_mark :: string where
  "check_mark = [CHR 0xE2, CHR 0x9C, CHR 0x85]"

definition file_folder :: string where
  "file_folder = [CHR 0xF0, CHR 0x9F, CHR 0x93, CHR 0x81]"

definition musical_score :: string where
  "musical_score = [CHR 0xF0, CHR 0x9F, CHR 0x8E, CHR 0xBC]"

definition musical_note :: string where
  "musical_note = [CHR 0xF0, CHR 0x9F, CHR 0x8E, CHR 0xB5]"

subsection \<open>\<^verbatim>\<open>wav_to_musicxml\<close>\<close>

definition musicxml_content_mcp :: string where
  \<open>musicxml_content_mcp =
     join newline
          [''<?xml version="1.0" encoding="UTF-8"?>'',
           ''<!DOCTYPE score-partwise PUBLIC "-//Recordare//DTD MusicXML 3.1 Partwise//EN" "http://www.musicxml.org/dtds/partwise.dtd">'',
           ''<score-partwise version="3.1">'',
           ''  <part-list>'',
           ''    <score-part id="P1">'',
           ''      <part-name>Generated from Audio</part-name>'',
           ''    </score-part>'',
           ''  </part-list>'',
           ''  <part id="P1">'',
           ''    <measure number="1">'',
           ''      <attributes>'',
           ''        <divisions>1</divisions>'',
           ''        <key>'',
           ''          <fifths>0</fifths>'',
           ''        </key>'',
           ''        <time>'',
           ''          <beats>4</beats>'',
           ''          <beat-type>4</beat-type>'',
           ''        </time>'',
           ''        <clef>'',
           ''          <sign>G</sign>'',
           ''          <line>2</line>'',
           ''        </clef>'',
           ''      </attributes>'',
           ''      <note>'',
           ''        <pitch>'',
           ''          <step>C</step>'',
           ''          <octave>4</octave>'',
           ''        </pitch>'',
           ''        <duration>1</duration>'',
           ''        <type>quarter</type>'',
           ''      </note>'',
           ''      <note>'',
           ''        <pitch>'',
           ''          <step>D</step>'',
           ''          <octave>4</octave>'',
           ''        </pitch>'',
           ''        <duration>1</duration>'',
           ''        <type>quarter</type>'',
           ''      </note>'',
           ''      <note>'',
           ''        <pitch>'',
           ''          <step>E</step>'',
           ''          <octave>4</octave>'',
           ''        </pitch>'',
           ''        <duration>1</duration>'',
           ''        <type>quarter</type>'',
           ''      </note>'',
           ''      <note>'',
           ''        <pitch>'',
           ''          <step>F</step>'',
           ''          <octave>4</octave>'',
           ''        </pitch>'',
           ''        <duration>1</duration>'',
           ''        <type>quarter</type>'',
           ''      </note>'',
           ''    </measure>'',
           ''  </part>'',
           ''</score-partwise>'']\<close>

text \<open>
  \<^verbatim>\<open>wav_to_musicxml(wav_path, timestamp)\<close> writes the fixed document to
  \<^verbatim>\<open>/tmp/output/generated_<timestamp>.musicxml\<close> and returns the path; the audio
  file is not read.
\<close>

definition wav_to_musicxml :: "mcp_env \<Rightarrow> json \<Rightarrow> string \<Rightarrow> exn + string" where
  "wav_to_musicxml W wav_path timestamp =
     (let timestamp = (if timestamp = [] then now_xml W else timestamp)
      in case mkdir_xml W of
           Some e \<Rightarrow> Inl e
         | None \<Rightarrow>
             (let musicxml_path = ''/tmp/output/generated_'' @ timestamp @ ''.musicxml''
              in case write_musicxml W musicxml_path musicxml_content_mcp of
                   Some e \<Rightarrow> Inl e
                 | None \<Rightarrow> Inr musicxml_path))"

subsection \<open>\<^verbatim>\<open>render_musicxml_via_verovio_api\<close>\<close>

definition b64_char :: "nat \<Rightarrow> char" where
  "b64_char n =
     (if n < 26 then char_of (65 + n) else if n < 52 then char_of (71 + n)
      else if n < 62 then char_of (n - 4) else if n = 62 then CHR ''+'' else CHR ''/'')"

fun b64_groups :: "nat list \<Rightarrow> string" where
  "b64_groups (a # b # c # r) =
     [b64_char (a div 4), b64_char (a mod 4 * 16 + b div 16),
      b64_char (b mod 16 * 4 + c div 64), b64_char (c mod 64)] @ b64_groups r"
| "b64_groups [a, b] =
     [b64_char (a div 4), b64_char (a mod 4 * 16 + b div 16), b64_char (b mod 16 * 4), CHR ''='']"
| "b64_groups [a] = [b64_char (a div 4), b64_char (a mod 4 * 16), CHR ''='', CHR ''='']"
| "b64_groups [] = []"

definition b64encode :: "string \<Rightarrow> string" where
  "b64encode s = b64_groups (map of_char s)"

text \<open>The last \<^verbatim>\<open>try\<close> of the function: the SVG out of the answer, into the HTML.\<close>

definition svg_html_of :: "http_response \<Rightarrow> exn + string" where
  \<open>svg_html_of response =
     (case resp_json response of
        Inl e \<Rightarrow> Inl e
      | Inr body \<Rightarrow>
          (case py_subscript body ''svg'' of
             Inl e \<Rightarrow> Inl e
           | Inr (JStr svg) \<Rightarrow>
               Inr (newline
                    @ ''        <div style="background-color: white; padding: 10px; border-radius: 8px;">''
                    @ newline
                    @ ''            <img src="data:image/svg+xml;base64,'' @ b64encode svg
                    @ ''" style="width:100%; max-height:600px;" />''
                    @ newline
                    @ ''        </div>''
                    @ newline
                    @ ''        '')
           | Inr v \<Rightarrow> Inl (AttributeError v ''encode'')))\<close>

definition render_musicxml_via_verovio_api :: "mcp_env \<Rightarrow> string \<Rightarrow> string" where
  "render_musicxml_via_verovio_api W musicxml_path =
     (if VEROVIO_API_URL = [] then cross_mark @ '' VEROVIO_API_URL is not configured''
      else
        (case verovio_post W musicxml_path of
           Inl e \<Rightarrow> cross_mark @ '' Verovio API call failed: '' @ str_exn (mcp_interp W) e
         | Inr response \<Rightarrow>
             if status_code response \<noteq> 200 then
               cross_mark @ '' Verovio API error '' @ string_of_int (status_code response)
                 @ '': '' @ resp_text response
             else
               (case svg_html_of response of
                  Inr html \<Rightarrow> html
                | Inl e \<Rightarrow>
                    warning_sign @ '' Failed to parse SVG: '' @ str_exn (mcp_interp W) e)))"

subsection \<open>\<^verbatim>\<open>generate_music_from_hum\<close>\<close>

text \<open>
  The directory is made before the \<^verbatim>\<open>try\<close>, so a failure there leaves the
  function; everything after it comes back as a string.
\<close>

definition hum_attempt :: "mcp_env \<Rightarrow> json \<Rightarrow> json \<Rightarrow> string \<Rightarrow> exn + string" where
  "hum_attempt W melody_file prompt wav_out_path =
     (case musicgen_post W melody_file prompt of
        Inl e \<Rightarrow> Inl e
      | Inr response \<Rightarrow>
          if status_code response \<noteq> 200 then
            Inr (cross_mark @ '' API error '' @ string_of_int (status_code response)
                 @ '': '' @ resp_text response)
          else
            (case write_wav W wav_out_path (resp_content response) of
               Some e \<Rightarrow> Inl e
             | None \<Rightarrow> Inr wav_out_path))"

definition generate_music_from_hum :: "mcp_env \<Rightarrow> json \<Rightarrow> json \<Rightarrow> exn + string" where
  "generate_music_from_hum W melody_file prompt =
     (if MUSICGEN_API_URL = [] then Inr (cross_mark @ '' MUSICGEN_API_URL is not configured.'')
      else
        (let timestamp = now_hum W
         in case mkdir_hum W of
              Some e \<Rightarrow> Inl e
            | None \<Rightarrow>
                (let wav_out_path = ''/tmp/output/generated_'' @ timestamp @ ''.wav''
                 in case hum_attempt W melody_file prompt wav_out_path of
                      Inr s \<Rightarrow> Inr s
                    | Inl e \<Rightarrow>
                        Inr (cross_mark @ '' Music generation failed: ''
                             @ str_exn (mcp_interp W) e))))"

subsection \<open>\<^verbatim>\<open>MCPRequest\<close> and its validation\<close>

record MCPRequest =
  req_jsonrpc :: string
  req_id :: int
  req_method :: string
  req_params :: dict

text \<open>
  A value already of the field's type is taken as it is; what becomes of any other
  value is the validating library's choice. A field with a default may be absent.
\<close>

definition validate_int :: "mcp_env \<Rightarrow> json \<Rightarrow> int option" where
  "validate_int W v = (case v of JInt n \<Rightarrow> Some n | _ \<Rightarrow> coerce_int W v)"

definition validate_str :: "mcp_env \<Rightarrow> json \<Rightarrow> string option" where
  "validate_str W v = (case v of JStr s \<Rightarrow> Some s | _ \<Rightarrow> coerce_str W v)"

definition validate_dict :: "mcp_env \<Rightarrow> json \<Rightarrow> dict option" where
  "validate_dict W v = (case v of JObj d \<Rightarrow> Some d | _ \<Rightarrow> coerce_dict W v)"

definition MCPRequest_init :: "mcp_env \<Rightarrow> json \<Rightarrow> exn + MCPRequest" where
  "MCPRequest_init W request_data =
     (case request_data of
        JObj d \<Rightarrow>
          (case (case map_of d ''jsonrpc'' of None \<Rightarrow> Some ''2.0'' | Some v \<Rightarrow> validate_str W v,
                 case map_of d ''id'' of None \<Rightarrow> None | Some v \<Rightarrow> validate_int W v,
                 case map_of d ''method'' of None \<Rightarrow> None | Some v \<Rightarrow> validate_str W v,
                 case map_of d ''params'' of None \<Rightarrow> Some [] | Some v \<Rightarrow> validate_dict W v) of
             (Some j, Some i, Some m, Some p) \<Rightarrow>
               Inr \<lparr>req_jsonrpc = j, req_id = i, req_method = m, req_params = p\<rparr>
           | _ \<Rightarrow> Inl (LibraryError (validation_error_text W d)))
      | _ \<Rightarrow> Inl (NotAMapping ''MCPRequest'' request_data))"

subsection \<open>The two tools of \<^verbatim>\<open>tools/call\<close>\<close>

text \<open>
  Each tool branch runs its work in a \<^verbatim>\<open>try\<close> of its own: \<open>wav_attempt\<close> and
  \<open>humming_attempt\<close> are the bodies, yielding the text of the result or the
  exception the branch's handler receives.
\<close>

definition wav_attempt :: "mcp_env \<Rightarrow> json \<Rightarrow> json \<Rightarrow> exn + string" where
  "wav_attempt W wav_file_path render_svg =
     (case path_exists W wav_file_path of
        Inl e \<Rightarrow> Inl e
      | Inr False \<Rightarrow>
          Inr (cross_mark @ '' WAV file not found: '' @ py_str (mcp_interp W) wav_file_path)
      | Inr True \<Rightarrow>
          (let timestamp = now_dispatch W
           in case wav_to_musicxml W wav_file_path timestamp of
                Inl e \<Rightarrow> Inl e
              | Inr musicxml_path \<Rightarrow>
                  (let result = check_mark @ '' Successfully generated MusicXML score from WAV file''
                                @ newline @ file_folder @ '' MusicXML file: '' @ musicxml_path
                   in if py_truthy render_svg then
                        (let svg_html = render_musicxml_via_verovio_api W musicxml_path
                         in if startswith svg_html cross_mark \<or> startswith svg_html warning_sign
                            then Inr (result @ newline @ warning_sign
                                      @ '' SVG rendering failed: '' @ svg_html)
                            else Inr (result @ newline @ musical_score
                                      @ '' Score rendered successfully as SVG'' @ newline
                                      @ svg_html))
                      else Inr result)))"

text \<open>The innermost \<^verbatim>\<open>try\<close> of the humming branch: the score of the generated audio.\<close>

definition score_attempt :: "mcp_env \<Rightarrow> string \<Rightarrow> string \<Rightarrow> exn + string" where
  "score_attempt W generated_wav_path result =
     (let timestamp = now_dispatch W
      in case wav_to_musicxml W (JStr generated_wav_path) timestamp of
           Inl e \<Rightarrow> Inl e
         | Inr score_path \<Rightarrow>
             (let result = result @ newline @ musical_score @ '' Music score generated: ''
                           @ score_path;
                  svg_html = render_musicxml_via_verovio_api W score_path
              in if startswith svg_html cross_mark \<or> startswith svg_html warning_sign
                 then Inr result
                 else Inr (result @ newline @ musical_score @ '' Score rendered as SVG:''
                           @ newline @ svg_html)))"

definition humming_attempt :: "mcp_env \<Rightarrow> json \<Rightarrow> json \<Rightarrow> json \<Rightarrow> exn + string" where
  "humming_attempt W humming_file_path style_prompt generate_score =
     (case path_exists W humming_file_path of
        Inl e \<Rightarrow> Inl e
      | Inr False \<Rightarrow>
          Inr (cross_mark @ '' Humming file not found: ''
               @ py_str (mcp_interp W) humming_file_path)
      | Inr True \<Rightarrow>
          (case generate_music_from_hum W humming_file_path style_prompt of
             Inl e \<Rightarrow> Inl e
           | Inr generated_wav_path \<Rightarrow>
               if startswith generated_wav_path cross_mark then Inr generated_wav_path
               else
                 (let result = check_mark @ '' Successfully generated music from humming''
                               @ newline @ file_folder @ '' Generated music file: ''
                               @ generated_wav_path
                               @ newline @ musical_note @ '' Style: ''
                               @ py_str (mcp_interp W) style_prompt
                  in if py_truthy generate_score then
                       (case score_attempt W generated_wav_path result of
                          Inr result' \<Rightarrow> Inr result'
                        | Inl e \<Rightarrow>
                            Inr (result @ newline @ warning_sign
                                 @ '' Score generation error: '' @ str_exn (mcp_interp W) e))
                     else Inr result)))"

definition tools_call_mcp :: "mcp_env \<Rightarrow> MCPRequest \<Rightarrow> exn + dict" where
  "tools_call_mcp W request =
     (let tool_name = dict_get (req_params request) ''name'' JNull;
          arguments = dict_get (req_params request) ''arguments'' (JObj [])
      in if tool_name = JStr ''wav_to_music_score'' then
           (case py_get arguments ''wav_file_path'' JNull of
              Inl e \<Rightarrow> Inl e
            | Inr wav_file_path \<Rightarrow>
                (case py_get arguments ''render_svg'' (JBool True) of
                   Inl e \<Rightarrow> Inl e
                 | Inr render_svg \<Rightarrow>
                     if \<not> py_truthy wav_file_path then
                       Inr (error_response (JInt (req_id request)) (- 32602)
                              ''Missing required parameter: wav_file_path'')
                     else
                       (case wav_attempt W wav_file_path render_svg of
                          Inr result \<Rightarrow>
                            Inr (result_response (JInt (req_id request)) (text_content result))
                        | Inl e \<Rightarrow>
                            Inr (result_response (JInt (req_id request))
                                   (text_content (cross_mark
                                      @ '' Error converting WAV to music score: ''
                                      @ str_exn (mcp_interp W) e))))))
         else if tool_name = JStr ''generate_music_from_humming'' then
           (case py_get arguments ''humming_file_path'' JNull of
              Inl e \<Rightarrow> Inl e
            | Inr humming_file_path \<Rightarrow>
                (case py_get arguments ''style_prompt'' JNull of
                   Inl e \<Rightarrow> Inl e
                 | Inr style_prompt \<Rightarrow>
                     (case py_get arguments ''generate_score'' (JBool False) of
                        Inl e \<Rightarrow> Inl e
                      | Inr generate_score \<Rightarrow>
                          if \<not> py_truthy humming_file_path \<or> \<not> py_truthy style_prompt then
                            Inr (error_response (JInt (req_id request)) (- 32602)
                                   ''Missing required parameters: humming_file_path and style_prompt'')
                          else
                            (case humming_attempt W humming_file_path style_prompt
                                    generate_score of
                               Inr result \<Rightarrow>
                                 Inr (result_response (JInt (req_id request))
                                        (text_content result))
                             | Inl e \<Rightarrow>
                                 Inr (result_response (JInt (req_id request))
                                        (text_content (cross_mark
                                           @ '' Error generating music from humming: ''
                                           @ str_exn (mcp_interp W) e)))))))
         else
           Inr (error_response (JInt (req_id request)) (- 32601)
                  (''Unknown tool: '' @ py_str (mcp_interp W) tool_name)))"

subsection \<open>The dispatcher of \<^verbatim>\<open>api/mcp.py\<close>\<close>

definition initialize_result_mcp :: json where
  "initialize_result_mcp =
     JObj [(''protocolVersion'', JStr ''2024-11-05''),
           (''capabilities'',
              JObj [(''experimental'', JObj []),
                    (''prompts'', JObj [(''listChanged'', JBool False)]),
                    (''resources'',
                       JObj [(''subscribe'', JBool False), (''listChanged'', JBool False)]),
                    (''tools'', JObj [(''listChanged'', JBool True)])]),
           (''serverInfo'',
              JObj [(''name'', JStr ''MusicToolkit MCP Server''), (''version'', JStr ''1.14.0'')])]"

definition tools_mcp :: "json list" where
  "tools_mcp =
     [JObj [(''name'', JStr ''wav_to_music_score''),
            (''description'',
               JStr ''Convert a WAV audio file to a MusicXML score and render it as an SVG image''),
            (''inputSchema'',
               JObj [(''type'', JStr ''object''),
                     (''properties'',
                        JObj [(''wav_file_path'',
                                 JObj [(''type'', JStr ''string''),
                                       (''description'',
                                          JStr ''Path to the input WAV audio file'')]),
                              (''render_svg'',
                                 JObj [(''type'', JStr ''boolean''),
                                       (''description'',
                                          JStr ''Whether to render the score as SVG''),
                                       (''default'', JBool True)])]),
                     (''required'', JList [JStr ''wav_file_path''])])],
      JObj [(''name'', JStr ''generate_music_from_humming''),
            (''description'',
               JStr ''Generate full music from a humming audio file using AI music generation''),
            (''inputSchema'',
               JObj [(''type'', JStr ''object''),
                     (''properties'',
                        JObj [(''humming_file_path'',
                                 JObj [(''type'', JStr ''string''),
                                       (''description'',
                                          JStr ''Path to the humming audio file (.wav)'')]),
                              (''style_prompt'',
                                 JObj [(''type'', JStr ''string''),
                                       (''description'',
                                          JStr ''Text prompt describing the desired music style'')]),
                              (''generate_score'',
                                 JObj [(''type'', JStr ''boolean''),
                                       (''description'',
                                          JStr ''Whether to also generate a music score from the result''),
                                       (''default'', JBool False)])]),
                     (''required'', JList [JStr ''humming_file_path'', JStr ''style_prompt''])])]]"

text \<open>The body of the \<^verbatim>\<open>try\<close> statement: validation first, then the dispatch.\<close>

definition dispatch_mcp :: "mcp_env \<Rightarrow> json \<Rightarrow> exn + dict" where
  "dispatch_mcp W request_data =
     (case MCPRequest_init W request_data of
        Inl e \<Rightarrow> Inl e
      | Inr request \<Rightarrow>
          if req_method request = ''initialize'' then
            Inr (result_response (JInt (req_id request)) initialize_result_mcp)
          else if req_method request = ''tools/list'' then
            Inr (result_response (JInt (req_id request)) (JObj [(''tools'', JList tools_mcp)]))
          else if req_method request = ''tools/call'' then
            tools_call_mcp W request
          else if req_method request = ''resources/list'' then
            Inr (result_response (JInt (req_id request))
                   (JObj [(''resources'',
                           JList [JObj [(''uri'', JStr ''musictoolkit://output''),
                                        (''name'', JStr ''Generated Files''),
                                        (''description'',
                                           JStr ''List of generated music files and scores'')]])]))
          else if req_method request = ''prompts/list'' then
            Inr (result_response (JInt (req_id request))
                   (JObj [(''prompts'',
                           JList [JObj [(''name'', JStr ''music_processing''),
                                        (''description'',
                                           JStr ''AI assistant for music processing and generation tasks'')]])]))
          else
            Inr (error_response (JInt (req_id request)) (- 32601)
                   (''Method not found: '' @ req_method request)))"

text \<open>
  \<^verbatim>\<open>handle_mcp_request(request_data)\<close>: the handler reads the id from the raw
  request, which raises in its turn when the request is not a dict.
\<close>

definition handle_mcp_request_mcp :: "mcp_env \<Rightarrow> json \<Rightarrow> exn + dict" where
  "handle_mcp_request_mcp W request_data =
     (case dispatch_mcp W request_data of
        Inr response \<Rightarrow> Inr response
      | Inl e \<Rightarrow>
          (case py_get request_data ''id'' (JInt 0) of
             Inl e' \<Rightarrow> Inl e'
           | Inr request_id \<Rightarrow>
               Inr (error_response request_id (- 32603)
                      (''Internal error: '' @ str_exn (mcp_interp W) e))))"

section \<open>Concrete environments\<close>

text \<open>
  The wording CPython 3 gives to the exceptions it raises itself, for the environments
  the statements below are evaluated in.
\<close>

definition type_name :: "json \<Rightarrow> string" where
  "type_name v =
     (case v of
        JNull \<Rightarrow> ''NoneType'' | JBool b \<Rightarrow> ''bool'' | JInt n \<Rightarrow> ''int'' | JFloat r \<Rightarrow> ''float''
      | JStr s \<Rightarrow> ''str'' | JList vs \<Rightarrow> ''list'' | JObj kvs \<Rightarrow> ''dict'')"

definition quoted :: "string \<Rightarrow> string" where
  "quoted s = [CHR 0x27] @ s @ [CHR 0x27]"

definition cpython_text :: "exn \<Rightarrow> string" where
  "cpython_text e =
     (case e of
        Exception m \<Rightarrow> m
      | LibraryError m \<Rightarrow> m
      | AttributeError v a \<Rightarrow>
          quoted (type_name v) @ '' object has no attribute '' @ quoted a
      | NotAMapping f v \<Rightarrow>
          f @ ''() argument after ** must be a mapping, not '' @ type_name v
      | MissingArgument f p \<Rightarrow>
          f @ ''() missing 1 required positional argument: '' @ quoted p
      | UnexpectedKeyword f k \<Rightarrow>
          f @ ''() got an unexpected keyword argument '' @ quoted k
      | NotSubscriptable v k \<Rightarrow> quoted (type_name v) @ '' object is not subscriptable''
      | KeyError k \<Rightarrow> quoted k
      | UnsupportedOperand v opr t \<Rightarrow>
          ''unsupported operand type(s) for '' @ opr @ '': '' @ quoted (type_name v)
          @ '' and '' @ quoted t)"

text \<open>The statements evaluated below format no list and no dict.\<close>

definition cpython :: interp where
  "cpython = \<lparr>exn_text = cpython_text, repr_container = (\<lambda>v. ''[...]'')\<rparr>"

text \<open>A deployment of \<^verbatim>\<open>api/index.py\<close> that reaches no external service.\<close>

definition offline_env :: index_env where
  "offline_env =
     \<lparr>index_interp = cpython,
      now_stamp = ''20240101_120000'',
      now_date = ''2024-01-01'',
      requests_post_json = (\<lambda>url body. Inl (LibraryError ''connection refused''))\<rparr>"


text \<open>Requests the statements below are evaluated at.\<close>

definition request :: "int \<Rightarrow> string \<Rightarrow> json \<Rightarrow> json" where
  "request n method params =
     JObj [(''jsonrpc'', JStr ''2.0''), (''id'', JInt n), (''method'', JStr method),
           (''params'', params)]"





text \<open>A deployment of \<^verbatim>\<open>api/index.py\<close> whose external services answer 500.\<close>

definition failing_env :: index_env where
  "failing_env =
     \<lparr>index_interp = cpython,
      now_stamp = ''20240101_120000'',
      now_date = ''2024-01-01'',
      requests_post_json =
        (\<lambda>url body. Inr \<lparr>status_code = 500, resp_text = ''Internal Server Error'',
                         resp_content = ''Internal Server Error'',
                         resp_json = Inl (LibraryError ''Expecting value: line 1 column 1 (char 0)'')\<rparr>)\<rparr>"

section \<open>A request that is not a dict\<close>

text \<open>
  Both dispatchers read the request with \<^verbatim>\<open>.get\<close> outside any handler of their
  own, so a request that is a list, say, does raise.
\<close>

lemma index_raises_on_list:
  "handle_mcp_request_index E (JList vs) = Inl (AttributeError (JList vs) ''get'')"
  by (simp add: handle_mcp_request_index_def)

lemma mcp_raises_on_list:
  "handle_mcp_request_mcp W (JList vs) = Inl (AttributeError (JList vs) ''get'')"
  by (simp add: handle_mcp_request_mcp_def dispatch_mcp_def MCPRequest_init_def)

section \<open>Properties of the envelopes and of dict updates\<close>

lemma error_code_result [simp]: "error_code (result_response i x) = None"
  by (simp add: error_code_def result_response_def)

lemma error_code_error [simp]: "error_code (error_response i c m) = Some (JInt c)"
  by (simp add: error_code_def error_response_def)

lemma id_result [simp]: "map_of (result_response i x) ''id'' = Some i"
  by (simp add: result_response_def)

lemma id_error [simp]: "map_of (error_response i c m) ''id'' = Some i"
  by (simp add: error_response_def)

lemma map_of_dict_set: "map_of (dict_set d k v) k' = (if k' = k then Some v else map_of d k')"
proof (cases "k \<in> set (map fst d)")
  case False
  then have "map_of d k = None" by (simp add: map_of_eq_None_iff)
  with False show ?thesis by (auto simp: dict_set_def map_add_def split: option.splits)
next
  case True
  have "map_of (map (\<lambda>(k', v'). if k' = k then (k', v) else (k', v')) d) k'
        = (if k' = k then (if k \<in> set (map fst d) then Some v else None) else map_of d k')"
    by (induction d) force+
  with True show ?thesis by (simp add: dict_set_def)
qed

lemma dict_iadd_str_message:
  "map_of d k = Some (JStr m) \<Longrightarrow> dict_iadd_str d k s = Inr (dict_set d k (JStr (m @ s)))"
  by (simp add: dict_iadd_str_def)

section \<open>The tools of \<^verbatim>\<open>api/index.py\<close> never fail\<close>




lemma musicgen_attempt_keeps:
  "musicgen_attempt E h = Inr r \<Longrightarrow>
     map_of r ''success'' = Some (JBool True) \<and> (\<exists>m. map_of r ''message'' = Some (JStr m))"
  by (auto simp: musicgen_attempt_def split: sum.splits if_splits)

lemma musicgen_attempt_fails:
  "(case requests_post_json E (MUSICGEN_API_URL @ ''/generate'')
           (JObj [(''audio_path'', h), (''duration'', JInt 30)]) of
      Inl e \<Rightarrow> True
    | Inr response \<Rightarrow> status_code response \<noteq> 200) \<Longrightarrow>
   \<exists>e. musicgen_attempt E h = Inl e"
  by (auto simp: musicgen_attempt_def split: sum.splits)

lemma humming_body_result:
  "\<exists>r. generate_music_from_humming_body E h gs t = Inr r
       \<and> map_of r ''success'' = Some (JBool True)
       \<and> (isl (musicgen_attempt E h) \<longrightarrow> map_of r ''generated_audio'' = Some (JStr []))"
proof -
  define res where "res = (case musicgen_attempt E h of
               Inr result \<Rightarrow> result
             | Inl api_error \<Rightarrow>
                 [(''success'', JBool True),
                  (''generated_audio'', JStr []),
                  (''message'', JStr (''Placeholder response (MusicGen API unavailable: ''
                                       @ str_exn (index_interp E) api_error @ '')''))])"
  have s: "map_of res ''success'' = Some (JBool True)"
    and m: "\<exists>m. map_of res ''message'' = Some (JStr m)"
    and a: "isl (musicgen_attempt E h) \<longrightarrow> map_of res ''generated_audio'' = Some (JStr [])"
    using musicgen_attempt_keeps [of E h] by (auto simp: res_def split: sum.splits)
  from m obtain m where m: "map_of res ''message'' = Some (JStr m)" by blast
  let ?c = "create_placeholder_musicxml E ''Generated from Humming'' t"
  have body: "generate_music_from_humming_body E h gs t =
      (if py_truthy gs
       then dict_iadd_str (dict_set res ''musicxml'' (JStr ?c)) ''message'' '' with MusicXML score''
       else Inr res)"
    by (simp add: generate_music_from_humming_body_def res_def Let_def)
  have "map_of (dict_set res ''musicxml'' (JStr ?c)) ''message'' = Some (JStr m)"
    using m by (simp add: map_of_dict_set)
  from dict_iadd_str_message [OF this] s a show ?thesis
    by (simp add: body map_of_dict_set)
qed

section \<open>The shape of what the dispatchers return\<close>









lemma init_well_formed:
  assumes "map_of d ''jsonrpc'' = None \<or> (\<exists>j. map_of d ''jsonrpc'' = Some (JStr j))"
    and "map_of d ''id'' = Some (JInt n)"
    and "map_of d ''method'' = Some (JStr m)"
    and "map_of d ''params'' = None \<or> (\<exists>p. map_of d ''params'' = Some (JObj p))"
  shows "\<exists>q. MCPRequest_init W (JObj d) = Inr q"
  using assms
  by (auto simp: MCPRequest_init_def validate_int_def validate_str_def validate_dict_def
           split: option.splits)
















section \<open>The claims\<close>























text \<open>
  C9. In \<^verbatim>\<open>api/index.py\<close> the result of \<^verbatim>\<open>wav_to_music_score\<close> does not depend on
  \<^verbatim>\<open>wav_path\<close>: with the same flag, the same timestamp and the same environment (clock
  and HTTP answers), any two paths give the same result. The environment of this
  variant has no filesystem to read the audio file from.
\<close>

theorem wav_to_music_score_ignores_wav_path:
  "wav_to_music_score E wav_path1 render_svg timestamp
     = wav_to_music_score E wav_path2 render_svg timestamp"
  by (simp add: wav_to_music_score_def wav_to_music_score_body_def)

theorem wav_to_music_score_ignores_wav_path_witness:
  "wav_to_music_score offline_env (JStr ''/music/song.wav'') (JBool True) JNull
     = wav_to_music_score offline_env (JStr ''/no/such/file.wav'') (JBool True) JNull"
  by (rule wav_to_music_score_ignores_wav_path)

text \<open>
  C10. In \<^verbatim>\<open>api/index.py\<close> the result of \<^verbatim>\<open>generate_music_from_humming\<close> has
  \<^verbatim>\<open>success\<close> set to \<^verbatim>\<open>True\<close> for every input and every environment; when the call
  of the generation API raises or answers with a status other than 200, the result is
  the placeholder, whose \<^verbatim>\<open>generated_audio\<close> is empty.
\<close>

theorem generate_music_from_humming_always_success:
  "map_of (generate_music_from_humming E humming_path generate_score timestamp) ''success''
     = Some (JBool True)
   \<and> ((case requests_post_json E (MUSICGEN_API_URL @ ''/generate'')
              (JObj [(''audio_path'', humming_path), (''duration'', JInt 30)]) of
         Inl e \<Rightarrow> True
       | Inr response \<Rightarrow> status_code response \<noteq> 200) \<longrightarrow>
       map_of (generate_music_from_humming E humming_path generate_score timestamp)
         ''generated_audio'' = Some (JStr []))"
proof -
  obtain r where r: "generate_music_from_humming_body E humming_path generate_score timestamp = Inr r"
    and s: "map_of r ''success'' = Some (JBool True)"
    and a: "isl (musicgen_attempt E humming_path) \<longrightarrow> map_of r ''generated_audio'' = Some (JStr [])"
    using humming_body_result by blast
  have eq: "generate_music_from_humming E humming_path generate_score timestamp = r"
    using r by (simp add: generate_music_from_humming_def)
  show ?thesis
  proof (intro conjI impI)
    show "map_of (generate_music_from_humming E humming_path generate_score timestamp) ''success''
            = Some (JBool True)"
      using s eq by simp
  next
    assume "case requests_post_json E (MUSICGEN_API_URL @ ''/generate'')
                   (JObj [(''audio_path'', humming_path), (''duration'', JInt 30)]) of
              Inl e \<Rightarrow> True
            | Inr response \<Rightarrow> status_code response \<noteq> 200"
    from musicgen_attempt_fails [OF this] have "isl (musicgen_attempt E humming_path)"
      by auto
    with a eq
    show "map_of (generate_music_from_humming E humming_path generate_score timestamp)
            ''generated_audio'' = Some (JStr [])"
      by simp
  qed
qed

theorem generate_music_from_humming_always_success_witness:
  "map_of (generate_music_from_humming offline_env (JStr ''hum.wav'') (JBool True) JNull)
      ''success'' = Some (JBool True)
   \<and> map_of (generate_music_from_humming offline_env (JStr ''hum.wav'') (JBool True) JNull)
      ''generated_audio'' = Some (JStr [])
   \<and> map_of (generate_music_from_humming failing_env (JStr ''hum.wav'') (JBool False) JNull)
      ''success'' = Some (JBool True)
   \<and> map_of (generate_music_from_humming failing_env (JStr ''hum.wav'') (JBool False) JNull)
      ''generated_audio'' = Some (JStr [])"
  using generate_music_from_humming_always_success
          [of offline_env "JStr ''hum.wav''" "JBool True" JNull]
        generate_music_from_humming_always_success
          [of failing_env "JStr ''hum.wav''" "JBool False" JNull]
  by (simp add: offline_env_def failing_env_def)

end
